theory Spec2Isabelle
  imports Main "HOL-Library.Word"
begin

unbundle bit_operations_syntax

section \<open>The bitmask constants of the two header variants\<close>

text \<open>
  The repository holds two variants of \<^verbatim>\<open>externalProducers.h\<close>. The older one (the
  "provider" header, Version 1) names its bitmask member \<^verbatim>\<open>request_response\<close> and
  defines four flags; the newer one (the "producer" header, Version 2) names it
  \<^verbatim>\<open>status\<close> and defines two. The flags are stored in a \<^verbatim>\<open>uint32_t\<close>.
\<close>

type_synonym uint8_t = "8 word"
type_synonym uint32_t = "32 word"
type_synonym uint64_t = "64 word"

subsection \<open>Version 1 (provider header)\<close>

definition XXHASH_REQUEST :: uint32_t where
  "XXHASH_REQUEST = 0x00000001"

definition XXHASH_AVAILABLE :: uint32_t where
  "XXHASH_AVAILABLE = 0x00000002"

definition HISTOGRAM_REQUEST :: uint32_t where
  "HISTOGRAM_REQUEST = 0x00000004"

definition HISTOGRAM_AVAILABLE :: uint32_t where
  "HISTOGRAM_AVAILABLE = 0x00000008"

text \<open>The numeric macros the provider header defines, in the order of the file.\<close>

definition v1_flag_macros :: "(string \<times> uint32_t) list" where
  "v1_flag_macros =
     [(''XXHASH_REQUEST'', XXHASH_REQUEST),
      (''XXHASH_AVAILABLE'', XXHASH_AVAILABLE),
      (''HISTOGRAM_REQUEST'', HISTOGRAM_REQUEST),
      (''HISTOGRAM_AVAILABLE'', HISTOGRAM_AVAILABLE)]"

subsection \<open>Version 2 (producer header)\<close>

definition XXHASH_READY :: uint32_t where
  "XXHASH_READY = 0x00000001"

definition HISTOGRAM_READY :: uint32_t where
  "HISTOGRAM_READY = 0x00000002"

text \<open>The numeric macros the producer header defines, in the order of the file.\<close>

definition v2_flag_macros :: "(string \<times> uint32_t) list" where
  "v2_flag_macros =
     [(''XXHASH_READY'', XXHASH_READY),
      (''HISTOGRAM_READY'', HISTOGRAM_READY)]"

subsection \<open>What a bitmask word says under each constant set\<close>

text \<open>
  A reader tests a flag with \<^verbatim>\<open>word & FLAG\<close>. What a set flag says is given by its
  name: a request made by the caller, or a field the producer filled in and that may be
  read. "Ready" of Version 2 and "available" of Version 1 both say that the field is valid.
\<close>

datatype fact = Checksum_Requested | Checksum_Valid | Histogram_Requested | Histogram_Valid

definition is_set :: "uint32_t \<Rightarrow> uint32_t \<Rightarrow> bool" where
  "is_set w flag = (w AND flag \<noteq> 0)"

definition v1_meaning :: "uint32_t \<Rightarrow> fact list" where
  "v1_meaning w =
     (if is_set w XXHASH_REQUEST then [Checksum_Requested] else []) @
     (if is_set w XXHASH_AVAILABLE then [Checksum_Valid] else []) @
     (if is_set w HISTOGRAM_REQUEST then [Histogram_Requested] else []) @
     (if is_set w HISTOGRAM_AVAILABLE then [Histogram_Valid] else [])"

definition v2_meaning :: "uint32_t \<Rightarrow> fact list" where
  "v2_meaning w =
     (if is_set w XXHASH_READY then [Checksum_Valid] else []) @
     (if is_set w HISTOGRAM_READY then [Histogram_Valid] else [])"

text \<open>
  The status word of a Version 2 call, as the producer header describes it (steps 2 and 6
  of its comment): the caller clears \<^verbatim>\<open>params->status\<close>, and the producer sets
  \<^verbatim>\<open>XXHASH_READY\<close> and \<^verbatim>\<open>HISTOGRAM_READY\<close> for the outputs it filled in.
\<close>

definition v2_status :: "bool \<Rightarrow> bool \<Rightarrow> uint32_t" where
  "v2_status xxhash_done histogram_done =
     (0 OR (if xxhash_done then XXHASH_READY else 0))
       OR (if histogram_done then HISTOGRAM_READY else 0)"



section \<open>Layout of the exchanged structures\<close>

text \<open>
  The headers fix the members, their order and their types; where each member lies in
  memory follows from the C rule that members are placed in declaration order, each at
  the next offset that is a multiple of its alignment. The sizes of \<^verbatim>\<open>uint32_t\<close> and
  \<^verbatim>\<open>uint64_t\<close> are 4 and 8 bytes; their alignments are the platform's, a parameter here.
\<close>

record abi =
  align_u32 :: nat
  align_u64 :: nat

definition abi_ok :: "abi \<Rightarrow> bool" where
  "abi_ok a = ((align_u32 a = 1 \<or> align_u32 a = 2 \<or> align_u32 a = 4) \<and>
               (align_u64 a = 1 \<or> align_u64 a = 2 \<or> align_u64 a = 4 \<or> align_u64 a = 8))"

text \<open>The 64-bit Linux platforms (x86-64, ppc64le, aarch64) and 32-bit x86.\<close>

definition lp64 :: abi where
  "lp64 = \<lparr>align_u32 = 4, align_u64 = 8\<rparr>"

definition ilp32_x86 :: abi where
  "ilp32_x86 = \<lparr>align_u32 = 4, align_u64 = 4\<rparr>"

datatype scalar = Uint32 | Uint64

fun scalar_size :: "scalar \<Rightarrow> nat" where
  "scalar_size Uint32 = 4"
| "scalar_size Uint64 = 8"

fun scalar_align :: "abi \<Rightarrow> scalar \<Rightarrow> nat" where
  "scalar_align a Uint32 = align_u32 a"
| "scalar_align a Uint64 = align_u64 a"

text \<open>A declared member \<^verbatim>\<open>T name[n]\<close> (with \<open>n = 1\<close> for \<^verbatim>\<open>T name\<close>).\<close>

type_synonym field = "string \<times> scalar \<times> nat"

text \<open>A member ready to be placed: name, size in bytes, alignment.\<close>

type_synonym member = "string \<times> nat \<times> nat"

definition field_member :: "abi \<Rightarrow> field \<Rightarrow> member" where
  "field_member a f =
     (case f of (name, ty, n) \<Rightarrow> (name, n * scalar_size ty, scalar_align a ty))"

definition align_up :: "nat \<Rightarrow> nat \<Rightarrow> nat" where
  "align_up al n = ((n + al - 1) div al) * al"

text \<open>Placing the members from offset \<open>off\<close>: name, offset and size of each.\<close>

fun place :: "nat \<Rightarrow> member list \<Rightarrow> (string \<times> nat \<times> nat) list" where
  "place off [] = []"
| "place off ((name, sz, al) # ms) =
     (name, align_up al off, sz) # place (align_up al off + sz) ms"

fun members_end :: "nat \<Rightarrow> member list \<Rightarrow> nat" where
  "members_end off [] = off"
| "members_end off ((name, sz, al) # ms) = members_end (align_up al off + sz) ms"

definition members_align :: "member list \<Rightarrow> nat" where
  "members_align ms = foldr max (map (\<lambda>(name, sz, al). al) ms) 1"

definition struct_size :: "nat \<Rightarrow> member list \<Rightarrow> nat" where
  "struct_size al ms = align_up al (members_end 0 ms)"

definition union_size :: "nat \<Rightarrow> member list \<Rightarrow> nat" where
  "union_size al ms = align_up al (foldr max (map (\<lambda>(name, sz, al). sz) ms) 0)"

subsection \<open>\<^verbatim>\<open>hw_xxh64_state_t\<close>\<close>

text \<open>The declaration in the producer header (Version 2).\<close>

definition v2_hw_xxh64_state_t :: "field list" where
  "v2_hw_xxh64_state_t =
     [(''total_len'', Uint64, 1),
      (''v'', Uint64, 4),
      (''mem64'', Uint64, 4),
      (''memsize'', Uint32, 1),
      (''reserved32'', Uint32, 1),
      (''reserved64'', Uint64, 1)]"

text \<open>The declaration in the provider header (Version 1).\<close>

definition v1_hw_xxh64_state_t :: "field list" where
  "v1_hw_xxh64_state_t =
     [(''total_len'', Uint64, 1),
      (''v'', Uint64, 4),
      (''mem64'', Uint64, 4),
      (''memsize'', Uint32, 1),
      (''reserved32'', Uint32, 1),
      (''reserved64'', Uint64, 1)]"

text \<open>
  Modelled from the spec: \<^verbatim>\<open>XXH64_state_t\<close> of \<^verbatim>\<open>xxhash.h\<close>, which the headers include
  but do not contain. The spec gives the mirrored software structure as: 8-byte total
  length; four 8-byte lanes; four 8-byte carry words; 4-byte valid-byte count; 4-byte
  reserved; 8-byte reserved. The headers say that the layout of \<^verbatim>\<open>hw_xxh64_state_t\<close>
  "is identical to XXH64_state_t".
\<close>

definition XXH64_state_t :: "field list" where
  "XXH64_state_t =
     [(''total_len'', Uint64, 1),
      (''v'', Uint64, 4),
      (''mem64'', Uint64, 4),
      (''memsize'', Uint32, 1),
      (''reserved32'', Uint32, 1),
      (''reserved64'', Uint64, 1)]"

definition plain_struct :: "abi \<Rightarrow> string \<Rightarrow> field list \<Rightarrow> member" where
  "plain_struct a name fs =
     (let ms = map (field_member a) fs; al = members_align ms
      in (name, struct_size al ms, al))"

subsection \<open>\<^verbatim>\<open>histogram_t\<close>\<close>

text \<open>The same declaration in both headers, with \<^verbatim>\<open>__attribute__ ((aligned (8)))\<close>.\<close>

definition histogram_t :: "field list" where
  "histogram_t =
     [(''literal'', Uint32, 256),
      (''literals_length_code'', Uint32, 36),
      (''match_length_code'', Uint32, 53),
      (''offset_code'', Uint32, 32)]"

text \<open>
  The attribute raises the alignment with which the member is placed to 8; the size
  recorded for it is the 377 * 4 = 1508 bytes that the four counter arrays occupy.
\<close>

definition histogram_member :: "abi \<Rightarrow> string \<Rightarrow> member" where
  "histogram_member a name =
     (let ms = map (field_member a) histogram_t
      in (name, struct_size (members_align ms) ms, max 8 (members_align ms)))"

subsection \<open>The parameter structures\<close>

text \<open>
  The anonymous union: \<^verbatim>\<open>zstd_xxh64_state\<close> only when \<^verbatim>\<open>XXHASH_H_INCLUDED\<close> is
  defined (the flag \<open>xxh\<close>), and \<^verbatim>\<open>hw_xxh64_state\<close>.
\<close>

definition union_members :: "abi \<Rightarrow> bool \<Rightarrow> field list \<Rightarrow> member list" where
  "union_members a xxh hw =
     (if xxh then [plain_struct a ''zstd_xxh64_state'' XXH64_state_t] else []) @
     [plain_struct a ''hw_xxh64_state'' hw]"

definition anonymous_union :: "abi \<Rightarrow> bool \<Rightarrow> field list \<Rightarrow> member" where
  "anonymous_union a xxh hw =
     (let ms = union_members a xxh hw; al = members_align ms
      in (''(union)'', union_size al ms, al))"

text \<open>\<^verbatim>\<open>sequence_producer_parameters_t\<close> of the producer header (Version 2).\<close>

definition sequence_producer_parameters_t :: "abi \<Rightarrow> bool \<Rightarrow> member list" where
  "sequence_producer_parameters_t a xxh =
     [field_member a (''status'', Uint32, 1),
      anonymous_union a xxh v2_hw_xxh64_state_t,
      histogram_member a ''histogram'']"

text \<open>\<^verbatim>\<open>sequence_provider_parameters_t\<close> of the provider header (Version 1).\<close>

definition sequence_provider_parameters_t :: "abi \<Rightarrow> bool \<Rightarrow> member list" where
  "sequence_provider_parameters_t a xxh =
     [field_member a (''request_response'', Uint32, 1),
      anonymous_union a xxh v1_hw_xxh64_state_t,
      histogram_member a ''histogram'']"

text \<open>
  Members lie back to back when the first starts at \<open>off\<close> and each starts where the one
  before it ends.
\<close>

fun back_to_back :: "nat \<Rightarrow> (string \<times> nat \<times> nat) list \<Rightarrow> bool" where
  "back_to_back off [] = True"
| "back_to_back off ((name, pos, sz) # ps) = (pos = off \<and> back_to_back (pos + sz) ps)"

section \<open>The checksum state and its update\<close>

text \<open>
  The state as the headers declare it. \<^verbatim>\<open>mem64\<close> is declared \<^verbatim>\<open>uint64_t[4]\<close> and
  "treated as unsigned char[32]": it is kept here as its 32 bytes, since the update copies
  input bytes into it.
\<close>

record hw_xxh64_state_t =
  total_len :: uint64_t
  v :: "uint64_t list"
  mem64 :: "uint8_t list"
  memsize :: uint32_t
  reserved32 :: uint32_t
  reserved64 :: uint64_t

text \<open>
  The update routine \<^verbatim>\<open>XXH64_update\<close> of \<^verbatim>\<open>lib/common/xxhash.h\<close>, the caller's software
  routine, is named by the headers but not contained in them. The producer header says
  of the offload that "the external producer will update this state as if calling
  XXH64_update(src, srcSize)", and the spec that the update increments the total length,
  mixes the lanes and manages the carry buffer, which "holds input bytes not yet forming
  a complete hashable block", a full 32-byte block being "always folded into the lanes
  immediately". The definitions below follow these words. The mixing of one 8-byte word
  into one lane, which the spec leaves to the definition of the checksum algorithm, is
  the parameter \<open>rnd\<close> of every definition.
\<close>

type_synonym round_fn = "uint64_t \<Rightarrow> uint64_t \<Rightarrow> uint64_t"

text \<open>
  Modelled from the spec: the read of one lane's input, missing with \<^verbatim>\<open>xxhash.h\<close>. The
  first 8 bytes of \<open>bs\<close> read as a little-endian 64-bit word.
\<close>

definition XXH_readLE64 :: "uint8_t list \<Rightarrow> uint64_t" where
  "XXH_readLE64 bs = foldr (\<lambda>b acc. ucast b OR push_bit 8 acc) (take 8 bs) 0"

text \<open>
  Modelled from the spec: the "lane mixing" of one block, missing with \<^verbatim>\<open>xxhash.h\<close>.
  One 32-byte block is folded into the four lanes, 8 bytes to each.
\<close>

definition XXH64_consume_block :: "round_fn \<Rightarrow> uint64_t list \<Rightarrow> uint8_t list \<Rightarrow> uint64_t list" where
  "XXH64_consume_block rnd lanes p =
     map2 rnd lanes
       [XXH_readLE64 p, XXH_readLE64 (drop 8 p), XXH_readLE64 (drop 16 p),
        XXH_readLE64 (drop 24 p)]"

text \<open>
  Modelled from the spec: the loop of \<^verbatim>\<open>XXH64_update\<close> over the full blocks of the input,
  missing with \<^verbatim>\<open>xxhash.h\<close>. It returns the lanes after the last full block, and the
  bytes left.
\<close>

function XXH64_consume_long :: "round_fn \<Rightarrow> uint64_t list \<Rightarrow> uint8_t list \<Rightarrow> uint64_t list \<times> uint8_t list" where
  "XXH64_consume_long rnd lanes p =
     (if 32 \<le> length p
      then XXH64_consume_long rnd (XXH64_consume_block rnd lanes (take 32 p)) (drop 32 p)
      else (lanes, p))"
  by pat_completeness auto
termination
  by (relation "measure (\<lambda>(rnd, lanes, p). length p)") auto

declare XXH64_consume_long.simps [simp del]

text \<open>
  Modelled from the spec: the "carry-buffer management" of \<^verbatim>\<open>XXH64_update\<close>, missing
  with \<^verbatim>\<open>xxhash.h\<close>. The bytes \<open>src\<close> are copied into the buffer \<open>buf\<close> from position
  \<open>pos\<close> on; the other bytes of the buffer stay as they are.
\<close>

definition copy_into :: "uint8_t list \<Rightarrow> nat \<Rightarrow> uint8_t list \<Rightarrow> uint8_t list" where
  "copy_into buf pos src = take pos buf @ src @ drop (pos + length src) buf"

text \<open>
  Modelled from the spec: \<^verbatim>\<open>XXH64_update\<close> of \<^verbatim>\<open>lib/common/xxhash.h\<close>, which the headers
  do not contain. The total length grows by the length of the input. Input that does
  not complete a block is appended to the carry buffer. Otherwise the carried bytes, if
  any, are completed to a block that is folded into the lanes, every further full block
  of the input is folded, and the bytes left over are put at the start of the carry
  buffer.
\<close>

definition XXH64_update :: "round_fn \<Rightarrow> hw_xxh64_state_t \<Rightarrow> uint8_t list \<Rightarrow> hw_xxh64_state_t" where
  "XXH64_update rnd s input =
     (let len = length input;
          m = unat (memsize s);
          s1 = s\<lparr>total_len := total_len s + of_nat len\<rparr>
      in if m + len < 32
         then s1\<lparr>mem64 := copy_into (mem64 s1) m input,
                 memsize := memsize s1 + of_nat len\<rparr>
         else
           let s2 = (if m \<noteq> 0
                     then let buf = copy_into (mem64 s1) m (take (32 - m) input)
                          in s1\<lparr>mem64 := buf,
                                 v := XXH64_consume_block rnd (v s1) buf,
                                 memsize := 0\<rparr>
                     else s1);
               p = (if m \<noteq> 0 then drop (32 - m) input else input);
               (lanes, rest) = XXH64_consume_long rnd (v s2) p;
               s3 = s2\<lparr>v := lanes\<rparr>
           in if rest \<noteq> []
              then s3\<lparr>mem64 := copy_into (mem64 s3) 0 rest,
                      memsize := of_nat (length rest)\<rparr>
              else s3)"

text \<open>
  Modelled from the spec: the state a streaming session starts from (the caller's reset
  routine is missing with \<^verbatim>\<open>xxhash.h\<close>): nothing hashed, nothing carried, the lanes at
  the initial values \<open>lanes\<close> that the checksum algorithm defines.
\<close>

definition XXH64_initial :: "uint64_t list \<Rightarrow> hw_xxh64_state_t" where
  "XXH64_initial lanes =
     \<lparr>total_len = 0, v = lanes, mem64 = replicate 32 0, memsize = 0,
      reserved32 = 0, reserved64 = 0\<rparr>"

text \<open>
  Modelled from the spec: a streaming session, in which "only the Checksum State Mirror
  persists meaningfully across calls". The state after the session's updates, one for
  each input buffer of \<open>inputs\<close>, whether made by the producer or by the caller.
\<close>

definition XXH64_session :: "round_fn \<Rightarrow> uint64_t list \<Rightarrow> uint8_t list list \<Rightarrow> hw_xxh64_state_t" where
  "XXH64_session rnd lanes inputs = foldl (XXH64_update rnd) (XXH64_initial lanes) inputs"

section \<open>Auxiliary facts\<close>

lemmas flag_defs =
  XXHASH_REQUEST_def XXHASH_AVAILABLE_def HISTOGRAM_REQUEST_def HISTOGRAM_AVAILABLE_def
  XXHASH_READY_def HISTOGRAM_READY_def



lemma abi_cases:
  assumes "abi_ok a"
  obtains "align_u32 a = 1" "align_u64 a = 1" | "align_u32 a = 1" "align_u64 a = 2"
    | "align_u32 a = 1" "align_u64 a = 4" | "align_u32 a = 1" "align_u64 a = 8"
    | "align_u32 a = 2" "align_u64 a = 1" | "align_u32 a = 2" "align_u64 a = 2"
    | "align_u32 a = 2" "align_u64 a = 4" | "align_u32 a = 2" "align_u64 a = 8"
    | "align_u32 a = 4" "align_u64 a = 1" | "align_u32 a = 4" "align_u64 a = 2"
    | "align_u32 a = 4" "align_u64 a = 4" | "align_u32 a = 4" "align_u64 a = 8"
  using assms unfolding abi_ok_def by blast

lemma abi_ok_lp64: "abi_ok lp64"
  by (simp add: abi_ok_def lp64_def)

lemmas layout_defs =
  field_member_def align_up_def members_align_def struct_size_def plain_struct_def Let_def

lemma align_up_0: "align_up al 0 = 0"
  by (cases al) (simp_all add: align_up_def)

lemma same_declarations:
  "v1_hw_xxh64_state_t = v2_hw_xxh64_state_t" "XXH64_state_t = v2_hw_xxh64_state_t"
  by (simp_all add: v1_hw_xxh64_state_t_def v2_hw_xxh64_state_t_def XXH64_state_t_def)

lemma state_place:
  assumes "abi_ok a"
  shows "place 0 (map (field_member a) v2_hw_xxh64_state_t) =
       [(''total_len'', 0, 8), (''v'', 8, 32), (''mem64'', 40, 32),
        (''memsize'', 72, 4), (''reserved32'', 76, 4), (''reserved64'', 80, 8)]"
  using assms
  by (cases a rule: abi_cases)
    (simp_all add: v2_hw_xxh64_state_t_def layout_defs del: One_nat_def)

lemma state_struct:
  assumes "abi_ok a"
  shows "plain_struct a name v2_hw_xxh64_state_t = (name, 88, max (align_u32 a) (align_u64 a))"
  using assms
  by (cases a rule: abi_cases)
    (simp_all add: v2_hw_xxh64_state_t_def layout_defs del: One_nat_def)

lemma histogram_placed:
  assumes "abi_ok a"
  shows "histogram_member a name = (name, 1508, 8)"
  using assms
  by (cases a rule: abi_cases)
    (simp_all add: histogram_t_def histogram_member_def layout_defs del: One_nat_def)

lemma union_placed:
  assumes "abi_ok a"
  shows "anonymous_union a xxh v2_hw_xxh64_state_t =
    (''(union)'', 88, max (align_u32 a) (align_u64 a))"
  using assms
  by (cases a rule: abi_cases; cases xxh)
    (simp_all add: anonymous_union_def union_members_def state_struct same_declarations
      union_size_def members_align_def align_up_def Let_def del: One_nat_def)

lemma producer_parameters_place:
  assumes "abi_ok a"
  shows "place 0 (sequence_producer_parameters_t a xxh) =
     [(''status'', 0, 4), (''(union)'', if align_u64 a = 8 then 8 else 4, 88),
      (''histogram'', 96, 1508)]"
  using assms
  by (cases a rule: abi_cases)
    (simp_all add: sequence_producer_parameters_t_def union_placed [OF assms]
      histogram_placed [OF assms] field_member_def align_up_def del: One_nat_def)

lemma provider_parameters_place:
  assumes "abi_ok a"
  shows "place 0 (sequence_provider_parameters_t a xxh) =
     [(''request_response'', 0, 4), (''(union)'', if align_u64 a = 8 then 8 else 4, 88),
      (''histogram'', 96, 1508)]"
  using assms
  by (cases a rule: abi_cases)
    (simp_all add: sequence_provider_parameters_t_def union_placed [OF assms]
      same_declarations histogram_placed [OF assms] field_member_def align_up_def
      del: One_nat_def)

lemma consume_long_rest:
  "length (snd (XXH64_consume_long rnd lanes p)) = length p mod 32"
proof (induction rnd lanes p rule: XXH64_consume_long.induct)
  case (1 rnd lanes p)
  show ?case
  proof (cases "32 \<le> length p")
    case True
    then have "length (snd (XXH64_consume_long rnd lanes p)) = (length p - 32) mod 32"
      using "1" by (subst XXH64_consume_long.simps) simp
    also have "\<dots> = length p mod 32"
      using True by (simp add: le_mod_geq)
    finally show ?thesis .
  next
    case False
    then show ?thesis
      by (subst XXH64_consume_long.simps) simp
  qed
qed

lemma consume_long_40:
  assumes "length p = 40"
  shows "XXH64_consume_long rnd lanes p =
    (XXH64_consume_block rnd lanes (take 32 p), drop 32 p)"
proof -
  have "XXH64_consume_long rnd lanes p =
      XXH64_consume_long rnd (XXH64_consume_block rnd lanes (take 32 p)) (drop 32 p)"
    using assms by (subst XXH64_consume_long.simps) simp
  also have "\<dots> = (XXH64_consume_block rnd lanes (take 32 p), drop 32 p)"
    using assms by (subst XXH64_consume_long.simps) simp
  finally show ?thesis .
qed

text \<open>
  One update moves the count of carried bytes to the count of all bytes seen so far,
  modulo the block size.
\<close>

lemma update_memsize:
  assumes "unat (memsize s) < 32"
  shows "unat (memsize (XXH64_update rnd s input)) = (unat (memsize s) + length input) mod 32"
proof (cases "unat (memsize s) + length input < 32")
  case True
  then have "memsize (XXH64_update rnd s input) = memsize s + of_nat (length input)"
    by (simp add: XXH64_update_def Let_def)
  moreover have "unat (memsize s + of_nat (length input) :: uint32_t) =
      unat (memsize s) + length input"
    using True by (simp add: unat_word_ariths unat_of_nat)
  ultimately show ?thesis using True by simp
next
  case False
  define m where "m = unat (memsize s)"
  define p where "p = (if m \<noteq> 0 then drop (32 - m) input else input)"
  define s2 where "s2 =
    (if m \<noteq> 0
     then let buf = copy_into (mem64 s) m (take (32 - m) input)
          in s\<lparr>total_len := total_len s + of_nat (length input), mem64 := buf,
                v := XXH64_consume_block rnd (v s) buf, memsize := 0\<rparr>
     else s\<lparr>total_len := total_len s + of_nat (length input)\<rparr>)"
  have lp: "length p mod 32 = (m + length input) mod 32"
  proof (cases "m = 0")
    case True
    then show ?thesis by (simp add: p_def)
  next
    case nz: False
    have "length p = length input - (32 - m)" using nz by (simp add: p_def)
    moreover have "32 - m \<le> length input" using False m_def by simp
    moreover have "m < 32" using assms m_def by simp
    ultimately have "m + length input = length p + 32" by simp
    then show ?thesis by simp
  qed
  obtain lanes rest where cl: "XXH64_consume_long rnd (v s2) p = (lanes, rest)"
    by (cases "XXH64_consume_long rnd (v s2) p") auto
  have lr: "length rest = (m + length input) mod 32"
    using consume_long_rest [of rnd "v s2" p] cl lp by simp
  have "memsize (XXH64_update rnd s input) = of_nat (length rest)"
    using False cl
    unfolding XXH64_update_def Let_def m_def [symmetric] p_def [symmetric] s2_def
    by (auto simp: m_def unat_eq_zero)
  then show ?thesis using lr by (simp add: unat_of_nat m_def)
qed

lemma session_memsize_from:
  "unat (memsize s) < 32 \<Longrightarrow>
   unat (memsize (foldl (XXH64_update rnd) s inputs)) =
     (unat (memsize s) + sum_list (map length inputs)) mod 32"
proof (induction inputs arbitrary: s)
  case Nil
  then show ?case by simp
next
  case (Cons x xs)
  have step: "unat (memsize (XXH64_update rnd s x)) = (unat (memsize s) + length x) mod 32"
    using Cons.prems by (rule update_memsize)
  then have "unat (memsize (XXH64_update rnd s x)) < 32" by simp
  then have "unat (memsize (foldl (XXH64_update rnd) (XXH64_update rnd s x) xs)) =
      (unat (memsize (XXH64_update rnd s x)) + sum_list (map length xs)) mod 32"
    by (rule Cons.IH)
  then show ?case
    by (simp add: step mod_add_left_eq add.assoc)
qed

section \<open>The flags of the two versions\<close>

text \<open>
  Claim C4. The Version 1 header defines exactly four flags, a request bit and an
  availability bit for each of checksum and histogram, and the Version 2 header exactly
  two, "checksum ready" and "histogram ready", with no request bit. Neither header
  defines a name of the other, and within each version the flags are distinct powers of
  two.
\<close>

theorem flag_sets:
  "map fst v1_flag_macros =
      [''XXHASH_REQUEST'', ''XXHASH_AVAILABLE'', ''HISTOGRAM_REQUEST'', ''HISTOGRAM_AVAILABLE'']
   \<and> map snd v1_flag_macros = [2 ^ 0, 2 ^ 1, 2 ^ 2, 2 ^ 3]
   \<and> distinct (map snd v1_flag_macros)
   \<and> map v1_meaning (map snd v1_flag_macros) =
        [[Checksum_Requested], [Checksum_Valid], [Histogram_Requested], [Histogram_Valid]]
   \<and> map fst v2_flag_macros = [''XXHASH_READY'', ''HISTOGRAM_READY'']
   \<and> map snd v2_flag_macros = [2 ^ 0, 2 ^ 1]
   \<and> distinct (map snd v2_flag_macros)
   \<and> map v2_meaning (map snd v2_flag_macros) = [[Checksum_Valid], [Histogram_Valid]]
   \<and> set (map fst v1_flag_macros) \<inter> set (map fst v2_flag_macros) = {}"
  by (simp add: v1_flag_macros_def v2_flag_macros_def flag_defs v1_meaning_def v2_meaning_def
      is_set_def)




text \<open>
  Claim C6. The values of the two versions collide: \<^verbatim>\<open>XXHASH_READY\<close> is
  \<^verbatim>\<open>XXHASH_REQUEST\<close> and \<^verbatim>\<open>HISTOGRAM_READY\<close> is \<^verbatim>\<open>XXHASH_AVAILABLE\<close>, and both
  bitmask members are the first member of their structure, at offset 0. So the status
  word \<^verbatim>\<open>XXHASH_READY | HISTOGRAM_READY\<close> of a Version 2 producer reads, for a Version 1
  caller, as \<^verbatim>\<open>XXHASH_REQUEST | XXHASH_AVAILABLE\<close>, and no status word of a Version 2
  producer has \<^verbatim>\<open>HISTOGRAM_AVAILABLE\<close> (0x8) set.
\<close>

theorem flag_values_collide:
  "XXHASH_READY = 0x1 \<and> XXHASH_READY = XXHASH_REQUEST
   \<and> HISTOGRAM_READY = 0x2 \<and> HISTOGRAM_READY = XXHASH_AVAILABLE
   \<and> hd (place 0 (sequence_producer_parameters_t a xxh)) = (''status'', 0, 4)
   \<and> hd (place 0 (sequence_provider_parameters_t a xxh)) = (''request_response'', 0, 4)
   \<and> v2_status True True = (XXHASH_READY OR HISTOGRAM_READY)
   \<and> (XXHASH_READY OR HISTOGRAM_READY) = (XXHASH_REQUEST OR XXHASH_AVAILABLE)
   \<and> v1_meaning (v2_status True True) = [Checksum_Requested, Checksum_Valid]
   \<and> HISTOGRAM_AVAILABLE = 0x8
   \<and> v2_status xxhash_done histogram_done AND HISTOGRAM_AVAILABLE = 0"
  by (simp add: flag_defs v2_status_def v1_meaning_def is_set_def
      sequence_producer_parameters_t_def sequence_provider_parameters_t_def
      field_member_def align_up_0)

section \<open>The checksum update\<close>

text \<open>
  Claim C7. From a state with \<^verbatim>\<open>total_len = 0\<close>, \<^verbatim>\<open>memsize = 0\<close> and the four lanes
  at their initial values, the update with a 40-byte input gives \<^verbatim>\<open>total_len = 40\<close>,
  lanes into which exactly one 32-byte block (the first 32 bytes) has been folded, and
  the trailing 8 bytes in the carry buffer with \<^verbatim>\<open>memsize = 8\<close>. It holds for all
  initial lane values and every mixing function.
\<close>

theorem update_40_bytes:
  assumes "total_len s = 0" and "memsize s = 0" and "v s = [a, b, c, d]"
    and "length input = 40"
  shows "total_len (XXH64_update rnd s input) = 40
    \<and> memsize (XXH64_update rnd s input) = 8
    \<and> take 8 (mem64 (XXH64_update rnd s input)) = drop 32 input
    \<and> v (XXH64_update rnd s input) = XXH64_consume_block rnd [a, b, c, d] (take 32 input)
    \<and> v (XXH64_update rnd s input) =
        [rnd a (XXH_readLE64 input), rnd b (XXH_readLE64 (drop 8 input)),
         rnd c (XXH_readLE64 (drop 16 input)), rnd d (XXH_readLE64 (drop 24 input))]"
proof -
  have rd: "XXH_readLE64 (drop k (take 32 input)) = XXH_readLE64 (drop k input)"
    if "k \<le> 24" for k
    using that assms(4) by (simp add: XXH_readLE64_def drop_take take_take min_def)
  have blk: "XXH64_consume_block rnd [a, b, c, d] (take 32 input) =
        [rnd a (XXH_readLE64 input), rnd b (XXH_readLE64 (drop 8 input)),
         rnd c (XXH_readLE64 (drop 16 input)), rnd d (XXH_readLE64 (drop 24 input))]"
    using rd [of 0] rd [of 8] rd [of 16] rd [of 24] by (simp add: XXH64_consume_block_def)
  have ne: "drop 32 input \<noteq> []" using assms(4) by auto
  show ?thesis
    using assms ne blk
    by (simp add: XXH64_update_def Let_def consume_long_40 copy_into_def)
qed

text \<open>
  The example at the bytes 0, 1, ..., 39, with the mixing function and the initial lanes
  of the 64-bit xxHash for seed 0.
\<close>

theorem update_40_bytes_witness:
  "total_len (XXH64_initial [0x60EA27EEADC0B5D6, 0xC2B2AE3D27D4EB4F, 0, 0x61C8864E7A143579]) = 0
   \<and> memsize (XXH64_initial [0x60EA27EEADC0B5D6, 0xC2B2AE3D27D4EB4F, 0, 0x61C8864E7A143579]) = 0
   \<and> length (map of_nat [0..<40] :: uint8_t list) = 40
   \<and> total_len (XXH64_update
        (\<lambda>acc x. word_rotl 31 (acc + x * 0xC2B2AE3D27D4EB4F) * 0x9E3779B185EBCA87)
        (XXH64_initial [0x60EA27EEADC0B5D6, 0xC2B2AE3D27D4EB4F, 0, 0x61C8864E7A143579])
        (map of_nat [0..<40])) = 40
   \<and> memsize (XXH64_update
        (\<lambda>acc x. word_rotl 31 (acc + x * 0xC2B2AE3D27D4EB4F) * 0x9E3779B185EBCA87)
        (XXH64_initial [0x60EA27EEADC0B5D6, 0xC2B2AE3D27D4EB4F, 0, 0x61C8864E7A143579])
        (map of_nat [0..<40])) = 8
   \<and> take 8 (mem64 (XXH64_update
        (\<lambda>acc x. word_rotl 31 (acc + x * 0xC2B2AE3D27D4EB4F) * 0x9E3779B185EBCA87)
        (XXH64_initial [0x60EA27EEADC0B5D6, 0xC2B2AE3D27D4EB4F, 0, 0x61C8864E7A143579])
        (map of_nat [0..<40]))) = drop 32 (map of_nat [0..<40])"
proof -
  let ?s = "XXH64_initial [0x60EA27EEADC0B5D6, 0xC2B2AE3D27D4EB4F, 0, 0x61C8864E7A143579]"
  have h1: "total_len ?s = 0" and h2: "memsize ?s = 0"
    and h3: "v ?s = [0x60EA27EEADC0B5D6, 0xC2B2AE3D27D4EB4F, 0, 0x61C8864E7A143579]"
    by (simp_all add: XXH64_initial_def)
  have h4: "length (map of_nat [0..<40] :: uint8_t list) = 40" by simp
  show ?thesis
    using h1 h2 h4 update_40_bytes [OF h1 h2 h3 h4] by blast
qed

text \<open>
  Claim C8. In every state of a streaming session, the initial state and every state an
  update produces from such a state, for any input of any length, the count of valid
  carry-buffer bytes \<^verbatim>\<open>memsize\<close> is at most 31: it is the number of bytes seen modulo
  32, so a block is folded into the lanes as soon as it is full.
\<close>

theorem memsize_at_most_31:
  "unat (memsize (XXH64_session rnd lanes inputs)) \<le> 31
   \<and> unat (memsize (XXH64_update rnd (XXH64_session rnd lanes inputs) input)) \<le> 31
   \<and> unat (memsize (XXH64_session rnd lanes inputs)) = sum_list (map length inputs) mod 32"
proof -
  have init: "unat (memsize (XXH64_initial lanes)) < 32"
    by (simp add: XXH64_initial_def)
  have eq: "unat (memsize (XXH64_session rnd lanes inputs)) = sum_list (map length inputs) mod 32"
    using session_memsize_from [OF init, of rnd inputs]
    by (simp add: XXH64_session_def XXH64_initial_def)
  then have lt: "unat (memsize (XXH64_session rnd lanes inputs)) < 32" by simp
  have "unat (memsize (XXH64_update rnd (XXH64_session rnd lanes inputs) input)) < 32"
    using update_memsize [OF lt, of rnd input] by simp
  with eq lt show ?thesis by simp
qed

section \<open>The layout of the structures\<close>

text \<open>
  Claim C9. The checksum state consists of, in order, an 8-byte total length, four 8-byte
  lanes, four 8-byte carry words (a 32-byte buffer), a 4-byte count of valid bytes, a
  4-byte reserved member and an 8-byte reserved member, all of them integers of the
  host. Its members lie at the offsets 0, 8, 40, 72, 76 and 80 with nothing between
  them, its size is 88 bytes, and declaration, offsets, size and alignment are the same
  in both header variants and in the software state structure that it mirrors.
\<close>

theorem checksum_state_layout:
  assumes "abi_ok a"
  shows "map (\<lambda>(name, ty, n). (name, n, scalar_size ty)) v2_hw_xxh64_state_t =
       [(''total_len'', 1, 8), (''v'', 4, 8), (''mem64'', 4, 8),
        (''memsize'', 1, 4), (''reserved32'', 1, 4), (''reserved64'', 1, 8)]
   \<and> place 0 (map (field_member a) v2_hw_xxh64_state_t) =
       [(''total_len'', 0, 8), (''v'', 8, 32), (''mem64'', 40, 32),
        (''memsize'', 72, 4), (''reserved32'', 76, 4), (''reserved64'', 80, 8)]
   \<and> back_to_back 0 (place 0 (map (field_member a) v2_hw_xxh64_state_t))
   \<and> plain_struct a name v2_hw_xxh64_state_t = (name, 88, max (align_u32 a) (align_u64 a))
   \<and> v1_hw_xxh64_state_t = v2_hw_xxh64_state_t
   \<and> place 0 (map (field_member a) v1_hw_xxh64_state_t) =
       place 0 (map (field_member a) v2_hw_xxh64_state_t)
   \<and> plain_struct a name v1_hw_xxh64_state_t = plain_struct a name v2_hw_xxh64_state_t
   \<and> XXH64_state_t = v2_hw_xxh64_state_t
   \<and> place 0 (map (field_member a) XXH64_state_t) =
       place 0 (map (field_member a) v2_hw_xxh64_state_t)
   \<and> plain_struct a name XXH64_state_t = plain_struct a name v2_hw_xxh64_state_t"
proof -
  have decl: "map (\<lambda>(name, ty, n). (name, n, scalar_size ty)) v2_hw_xxh64_state_t =
       [(''total_len'', 1, 8), (''v'', 4, 8), (''mem64'', 4, 8),
        (''memsize'', 1, 4), (''reserved32'', 1, 4), (''reserved64'', 1, 8)]"
    by (simp add: v2_hw_xxh64_state_t_def)
  have packed: "back_to_back 0 (place 0 (map (field_member a) v2_hw_xxh64_state_t))"
    by (simp add: state_place [OF assms])
  show ?thesis
    using decl packed state_place [OF assms] state_struct [OF assms, of name]
    by (simp add: same_declarations)
qed

theorem checksum_state_layout_witness:
  "abi_ok lp64
   \<and> place 0 (map (field_member lp64) v2_hw_xxh64_state_t) =
       [(''total_len'', 0, 8), (''v'', 8, 32), (''mem64'', 40, 32),
        (''memsize'', 72, 4), (''reserved32'', 76, 4), (''reserved64'', 80, 8)]
   \<and> plain_struct lp64 ''hw_xxh64_state'' v2_hw_xxh64_state_t = (''hw_xxh64_state'', 88, 8)
   \<and> plain_struct lp64 ''hw_xxh64_state'' v1_hw_xxh64_state_t = (''hw_xxh64_state'', 88, 8)
   \<and> plain_struct lp64 ''hw_xxh64_state'' XXH64_state_t = (''hw_xxh64_state'', 88, 8)"
  using abi_ok_lp64 checksum_state_layout [OF abi_ok_lp64, of "''hw_xxh64_state''"]
  by (simp add: lp64_def)

text \<open>
  Claim C10, as stated: the parameter block is a 4-byte bitmask, immediately followed by
  the union, immediately followed by the histogram, with nothing between them. On a
  platform that aligns \<^verbatim>\<open>uint64_t\<close> to 8 bytes the bitmask ends at offset 4 and the union
  starts at offset 8, so the three parts do not lie back to back.
\<close>

theorem exchange_parameters_not_contiguous:
  "place 0 (sequence_producer_parameters_t lp64 True) =
      [(''status'', 0, 4), (''(union)'', 8, 88), (''histogram'', 96, 1508)]
   \<and> \<not> back_to_back 0 (place 0 (sequence_producer_parameters_t lp64 True))"
proof -
  have "align_u64 lp64 = 8"
    by (simp add: lp64_def)
  then show ?thesis
    using producer_parameters_place [OF abi_ok_lp64, of True] by simp
qed

text \<open>
  Claim C10, amended. Both parameter structures declare exactly three members, in this
  order: the 4-byte bitmask at offset 0; the union, whose 88 bytes are the size of the
  larger of its checksum-state members; and the histogram of 377 counters at offset 96.
  No other member lies between them, but the 92 bytes of bitmask and union do not fill
  the 96 bytes before the histogram: 4 bytes of alignment padding lie before the union
  where \<^verbatim>\<open>uint64_t\<close> is aligned to 8 bytes, and after it otherwise.
\<close>

theorem exchange_parameters_layout:
  assumes "abi_ok a"
  shows "place 0 (sequence_producer_parameters_t a xxh) =
       [(''status'', 0, 4), (''(union)'', if align_u64 a = 8 then 8 else 4, 88),
        (''histogram'', 96, 1508)]
   \<and> place 0 (sequence_provider_parameters_t a xxh) =
       [(''request_response'', 0, 4), (''(union)'', if align_u64 a = 8 then 8 else 4, 88),
        (''histogram'', 96, 1508)]
   \<and> fst (snd (anonymous_union a True v2_hw_xxh64_state_t)) =
       max (fst (snd (plain_struct a ''zstd_xxh64_state'' XXH64_state_t)))
           (fst (snd (plain_struct a ''hw_xxh64_state'' v2_hw_xxh64_state_t)))
   \<and> fst (snd (anonymous_union a False v2_hw_xxh64_state_t)) =
       fst (snd (plain_struct a ''hw_xxh64_state'' v2_hw_xxh64_state_t))
   \<and> sum_list (map (\<lambda>(name, ty, n). n) histogram_t) = 377
   \<and> \<not> back_to_back 0 (place 0 (sequence_producer_parameters_t a xxh))
   \<and> \<not> back_to_back 0 (place 0 (sequence_provider_parameters_t a xxh))"
proof -
  have counters: "sum_list (map (\<lambda>(name, ty, n). n) histogram_t) = 377"
    by (simp add: histogram_t_def)
  show ?thesis
    using counters
    by (simp add: producer_parameters_place [OF assms] provider_parameters_place [OF assms]
        union_placed [OF assms] state_struct [OF assms] same_declarations)
qed

theorem exchange_parameters_layout_witness:
  "abi_ok ilp32_x86
   \<and> place 0 (sequence_producer_parameters_t ilp32_x86 False) =
       [(''status'', 0, 4), (''(union)'', 4, 88), (''histogram'', 96, 1508)]
   \<and> place 0 (sequence_provider_parameters_t ilp32_x86 False) =
       [(''request_response'', 0, 4), (''(union)'', 4, 88), (''histogram'', 96, 1508)]
   \<and> \<not> back_to_back 0 (place 0 (sequence_producer_parameters_t ilp32_x86 False))"
proof -
  have ok: "abi_ok ilp32_x86"
    by (simp add: abi_ok_def ilp32_x86_def)
  show ?thesis
    using ok exchange_parameters_layout [OF ok, of False]
    by (simp add: ilp32_x86_def)
qed

end
